theory Spec2Isabelle
  imports Main "HOL-Library.List_Lexorder" "HOL-Library.Char_ord" "HOL-Library.Multiset"
    "HOL-Library.Sublist"
begin

section \<open>Data model of main.ts\<close>

text \<open>
  JavaScript strings are modelled as \<^typ>\<open>string\<close>, one \<^typ>\<open>char\<close> per code unit, ordered
  lexicographically by code unit as the operators \<^verbatim>\<open><\<close> and \<^verbatim>\<open>>\<close> of JavaScript order them
  (a proper prefix is smaller). An optional property (\<^verbatim>\<open>dueDate?: string\<close>) is an
  \<^typ>\<open>'a option\<close>, \<^term>\<open>None\<close> standing for \<^verbatim>\<open>undefined\<close>.
\<close>

record Task =
  task_id :: string
  task_text :: string
  completed :: bool
  dueDate :: "string option"

datatype sort_order = Asc | Desc

record Category =
  cat_id :: string
  cat_name :: string
  tasks :: "Task list"
  isCollapsed :: "bool option"
  color :: "string option"
  lastSortOrder :: "sort_order option"

datatype date_format = YYYY_MM_DD | DD_MM_YYYY | Automatic

record SimpleTasksBlocksSettings =
  categories :: "Category list"
  confirmTaskDeletion :: bool
  dateFormat :: date_format

definition DEFAULT_SETTINGS :: SimpleTasksBlocksSettings where
  "DEFAULT_SETTINGS =
     \<lparr>categories = [], confirmTaskDeletion = False, dateFormat = Automatic\<rparr>"

text \<open>
  The plugin object: its settings, whether \<^verbatim>\<open>this.view\<close> is set, and the effects the
  operations have on the outside: the documents handed to \<^verbatim>\<open>saveData\<close> (latest first), the
  number of calls of \<^verbatim>\<open>view.refresh()\<close>, and the texts of the notices shown (latest first).
\<close>

record SimpleTasksBlocksPlugin =
  settings :: SimpleTasksBlocksSettings
  view :: bool
  saved :: "SimpleTasksBlocksSettings list"
  refreshes :: nat
  notices :: "string list"

definition onload :: "SimpleTasksBlocksSettings option \<Rightarrow> SimpleTasksBlocksPlugin" where
  "onload loaded =
     \<lparr>settings = (case loaded of None \<Rightarrow> DEFAULT_SETTINGS | Some s \<Rightarrow> s),
      view = False, saved = [], refreshes = 0, notices = []\<rparr>"

definition openView :: "SimpleTasksBlocksPlugin \<Rightarrow> SimpleTasksBlocksPlugin" where
  "openView st = st\<lparr>view := True, refreshes := Suc (refreshes st)\<rparr>"

definition saveSettings :: "SimpleTasksBlocksPlugin \<Rightarrow> SimpleTasksBlocksPlugin" where
  "saveSettings st =
     (let st1 = st\<lparr>saved := settings st # saved st\<rparr>
      in if view st1 then st1\<lparr>refreshes := Suc (refreshes st1)\<rparr> else st1)"

definition Notice :: "string \<Rightarrow> SimpleTasksBlocksPlugin \<Rightarrow> SimpleTasksBlocksPlugin" where
  "Notice msg st = st\<lparr>notices := msg # notices st\<rparr>"

section \<open>JavaScript built-ins the operations use\<close>

text \<open>\<^verbatim>\<open>a || b\<close> on an optional string: \<^verbatim>\<open>undefined\<close> and the empty string are falsy.\<close>

definition truthy :: "string option \<Rightarrow> bool" where
  "truthy a = (case a of None \<Rightarrow> False | Some s \<Rightarrow> s \<noteq> [])"

definition or_else :: "string option \<Rightarrow> string \<Rightarrow> string" where
  "or_else a b = (case a of None \<Rightarrow> b | Some s \<Rightarrow> if s = [] then b else s)"

text \<open>
  \<^verbatim>\<open>Array.prototype.sort(cmp)\<close>: ECMAScript requires the sort to be stable and, for a
  consistent comparator, to return the elements in the comparator's order. It is modelled by
  the stable insertion sort: an element goes in front of the first element of the sorted
  rest that it does not follow.
\<close>

fun insert_by :: "('a \<Rightarrow> 'a \<Rightarrow> int) \<Rightarrow> 'a \<Rightarrow> 'a list \<Rightarrow> 'a list" where
  "insert_by cmp x [] = [x]"
| "insert_by cmp x (y # ys) =
     (if cmp x y \<le> 0 then x # y # ys else y # insert_by cmp x ys)"

definition array_sort :: "('a \<Rightarrow> 'a \<Rightarrow> int) \<Rightarrow> 'a list \<Rightarrow> 'a list" where
  "array_sort cmp xs = foldr (insert_by cmp) xs []"

text \<open>
  \<^verbatim>\<open>const x = xs.find(p); if (x) { mutate x }\<close>: the first element that satisfies \<open>p\<close> is
  changed in place.
\<close>

fun update_first :: "('a \<Rightarrow> bool) \<Rightarrow> ('a \<Rightarrow> 'a) \<Rightarrow> 'a list \<Rightarrow> 'a list" where
  "update_first p f [] = []"
| "update_first p f (x # xs) = (if p x then f x # xs else x # update_first p f xs)"

definition findCategory :: "string \<Rightarrow> SimpleTasksBlocksPlugin \<Rightarrow> Category option" where
  "findCategory categoryId st = find (\<lambda>c. cat_id c = categoryId) (categories (settings st))"

definition updateCategory ::
  "string \<Rightarrow> (Category \<Rightarrow> Category) \<Rightarrow> SimpleTasksBlocksPlugin \<Rightarrow> SimpleTasksBlocksPlugin" where
  "updateCategory categoryId f st =
     st\<lparr>settings := (settings st)\<lparr>categories :=
        update_first (\<lambda>c. cat_id c = categoryId) f (categories (settings st))\<rparr>\<rparr>"

text \<open>The plugin with another category sequence.\<close>

definition withCategories ::
  "Category list \<Rightarrow> SimpleTasksBlocksPlugin \<Rightarrow> SimpleTasksBlocksPlugin" where
  "withCategories cs st = st\<lparr>settings := (settings st)\<lparr>categories := cs\<rparr>\<rparr>"

text \<open>
  \<^verbatim>\<open>Date.now().toString()\<close>: the clock reading, a number of milliseconds, in decimal.
\<close>

definition digitChar :: "nat \<Rightarrow> char" where
  "digitChar d = ''0123456789'' ! d"

fun toString :: "nat \<Rightarrow> string" where
  "toString n = (if n < 10 then [digitChar n] else toString (n div 10) @ [digitChar (n mod 10)])"

declare toString.simps [simp del]

text \<open>
  \<^verbatim>\<open>xs.splice(start, ...)\<close> does not raise on an index out of range: a negative start counts
  from the end, and the start is clamped to the array.
\<close>

definition splice_start :: "int \<Rightarrow> nat \<Rightarrow> nat" where
  "splice_start start len =
     (if start < 0 then nat (max (int len + start) 0) else min (nat start) len)"

text \<open>
  \<^verbatim>\<open>s.trim()\<close> removes white space and line terminators at both ends; of these the code
  units below 256 are TAB, LF, VT, FF, CR, SP and NBSP.
\<close>

definition is_space :: "char \<Rightarrow> bool" where
  "is_space c \<longleftrightarrow>
     c \<in> set [CHR 0x09, CHR 0x0A, CHR 0x0B, CHR 0x0C, CHR 0x0D, CHR 0x20, CHR 0xA0]"

definition trim :: "string \<Rightarrow> string" where
  "trim s = rev (dropWhile is_space (rev (dropWhile is_space s)))"

text \<open>\<^verbatim>\<open>s.split('-')\<close>, and a part read in a template literal, where a missing part prints
  as \<^verbatim>\<open>undefined\<close>.\<close>

fun split_on :: "char \<Rightarrow> string \<Rightarrow> string list" where
  "split_on sep [] = [[]]"
| "split_on sep (c # cs) =
     (if c = sep then [] # split_on sep cs
      else (case split_on sep cs of [] \<Rightarrow> [[c]] | p # ps \<Rightarrow> (c # p) # ps))"

definition part :: "string list \<Rightarrow> nat \<Rightarrow> string" where
  "part ps i = (if i < length ps then ps ! i else ''undefined'')"

section \<open>TasksView.sortCategoryTasks\<close>

text \<open>The comparator handed to \<^verbatim>\<open>sort\<close>; \<open>todayStr\<close> is the date the clock gives.\<close>

definition compareTasks :: "sort_order \<Rightarrow> string \<Rightarrow> Task \<Rightarrow> Task \<Rightarrow> int" where
  "compareTasks newOrder todayStr a b =
     (let dateA = or_else (dueDate a) todayStr;
          dateB = or_else (dueDate b) todayStr
      in if dateA = dateB then 0
         else if newOrder = Asc then (if dateA < dateB then - 1 else 1)
         else (if dateA > dateB then - 1 else 1))"

definition sortCategoryTasks ::
  "string \<Rightarrow> string \<Rightarrow> SimpleTasksBlocksPlugin \<Rightarrow> SimpleTasksBlocksPlugin" where
  "sortCategoryTasks todayStr categoryId st =
     (case findCategory categoryId st of
        None \<Rightarrow> st
      | Some category \<Rightarrow>
          let currentOrder = (case lastSortOrder category of None \<Rightarrow> Desc | Some ord \<Rightarrow> ord);
              newOrder = (if currentOrder = Asc then Desc else Asc);
              sorted = array_sort (compareTasks newOrder todayStr) (tasks category);
              st1 = updateCategory categoryId
                      (\<lambda>c. c\<lparr>tasks := sorted, lastSortOrder := Some newOrder\<rparr>) st;
              st2 = saveSettings st1
          in Notice (''Sorted tasks '' @ (if newOrder = Asc then ''ascending'' else ''descending''))
               st2)"

section \<open>SimpleTasksBlocksPlugin.addCategory\<close>

text \<open>
  \<open>nowCategory\<close> and \<open>nowTask\<close> are the two readings of \<^verbatim>\<open>Date.now()\<close>, for the category's id
  and for the id of its first task.
\<close>

definition addCategory ::
  "nat \<Rightarrow> nat \<Rightarrow> string \<Rightarrow> string \<Rightarrow> string option \<Rightarrow>
     SimpleTasksBlocksPlugin \<Rightarrow> SimpleTasksBlocksPlugin" where
  "addCategory nowCategory nowTask name firstTaskText due st =
     (let newCategory =
            \<lparr>cat_id = toString nowCategory, cat_name = name, tasks = [],
             isCollapsed = Some False, color = Some [], lastSortOrder = None\<rparr>;
          newCategory' =
            (if firstTaskText \<noteq> []
             then newCategory\<lparr>tasks := tasks newCategory @
                    [\<lparr>task_id = toString nowTask @ ''-task'', task_text = firstTaskText,
                      completed = False, dueDate = due\<rparr>]\<rparr>
             else newCategory)
      in saveSettings
           (st\<lparr>settings := (settings st)\<lparr>categories :=
                  categories (settings st) @ [newCategory']\<rparr>\<rparr>))"

section \<open>The other operations of TasksView\<close>

text \<open>
  \<open>reorderCategories\<close>: two calls of \<^verbatim>\<open>splice\<close>. When the first one removes nothing (the start
  is at or past the end), \<^verbatim>\<open>moved\<close> is \<^verbatim>\<open>undefined\<close> and the second call stores it in the
  array, which is then no sequence of categories any more: the result is \<^term>\<open>None\<close>.
\<close>

definition reorderCategories ::
  "int \<Rightarrow> int \<Rightarrow> SimpleTasksBlocksPlugin \<Rightarrow> SimpleTasksBlocksPlugin option" where
  "reorderCategories fromIndex toIndex st =
     (let cats = categories (settings st);
          a = splice_start fromIndex (length cats)
      in case drop a cats of
           [] \<Rightarrow> None
         | moved # after \<Rightarrow>
             let remaining = take a cats @ after;
                 b = splice_start toIndex (length remaining)
             in Some (saveSettings
                  (st\<lparr>settings := (settings st)\<lparr>categories :=
                         take b remaining @ moved # drop b remaining\<rparr>\<rparr>)))"

definition deleteCategory :: "string \<Rightarrow> SimpleTasksBlocksPlugin \<Rightarrow> SimpleTasksBlocksPlugin" where
  "deleteCategory ident st =
     saveSettings
       (st\<lparr>settings := (settings st)\<lparr>categories :=
              filter (\<lambda>c. cat_id c \<noteq> ident) (categories (settings st))\<rparr>\<rparr>)"

definition addTask ::
  "nat \<Rightarrow> string \<Rightarrow> string \<Rightarrow> string option \<Rightarrow>
     SimpleTasksBlocksPlugin \<Rightarrow> SimpleTasksBlocksPlugin" where
  "addTask now categoryId taskText due st =
     (case findCategory categoryId st of
        None \<Rightarrow> st
      | Some category \<Rightarrow>
          saveSettings
            (updateCategory categoryId
               (\<lambda>c. c\<lparr>tasks := tasks c @
                  [\<lparr>task_id = toString now, task_text = taskText, completed = False,
                    dueDate = due\<rparr>]\<rparr>) st))"

definition toggleTask ::
  "string \<Rightarrow> string \<Rightarrow> bool \<Rightarrow> SimpleTasksBlocksPlugin \<Rightarrow> SimpleTasksBlocksPlugin" where
  "toggleTask categoryId taskId completed' st =
     (case findCategory categoryId st of
        None \<Rightarrow> st
      | Some category \<Rightarrow>
          (case find (\<lambda>t. task_id t = taskId) (tasks category) of
             None \<Rightarrow> st
           | Some task \<Rightarrow>
               saveSettings
                 (updateCategory categoryId
                    (\<lambda>c. c\<lparr>tasks := update_first (\<lambda>t. task_id t = taskId)
                                       (\<lambda>t. t\<lparr>completed := completed'\<rparr>) (tasks c)\<rparr>) st)))"

definition deleteTask ::
  "string \<Rightarrow> string \<Rightarrow> SimpleTasksBlocksPlugin \<Rightarrow> SimpleTasksBlocksPlugin" where
  "deleteTask categoryId taskId st =
     (case findCategory categoryId st of
        None \<Rightarrow> st
      | Some category \<Rightarrow>
          saveSettings
            (updateCategory categoryId
               (\<lambda>c. c\<lparr>tasks := filter (\<lambda>t. task_id t \<noteq> taskId) (tasks c)\<rparr>) st))"

definition toggleAllCategories :: "SimpleTasksBlocksPlugin \<Rightarrow> SimpleTasksBlocksPlugin" where
  "toggleAllCategories st =
     (let anyOpen = list_ex (\<lambda>c. isCollapsed c \<noteq> Some True) (categories (settings st))
      in saveSettings
           (st\<lparr>settings := (settings st)\<lparr>categories :=
                  map (\<lambda>c. c\<lparr>isCollapsed := Some anyOpen\<rparr>) (categories (settings st))\<rparr>\<rparr>))"

definition cleanCompletedTasks :: "SimpleTasksBlocksPlugin \<Rightarrow> SimpleTasksBlocksPlugin" where
  "cleanCompletedTasks st =
     saveSettings
       (st\<lparr>settings := (settings st)\<lparr>categories :=
              map (\<lambda>c. c\<lparr>tasks := filter (\<lambda>t. \<not> completed t) (tasks c)\<rparr>)
                (categories (settings st))\<rparr>\<rparr>)"

section \<open>The date badge of TasksView.renderTask\<close>

definition formatDate :: "date_format \<Rightarrow> string \<Rightarrow> string \<Rightarrow> string" where
  "formatDate format locale dateStr =
     (if dateStr = [] then []
      else
        let useFr = (if format = Automatic then take 2 locale = ''fr''
                     else format = DD_MM_YYYY)
        in if useFr
           then (let ps = split_on CHR ''-'' dateStr
                 in part ps 2 @ ''-'' @ part ps 1 @ ''-'' @ part ps 0)
           else dateStr)"

datatype badge_class = IsOverdue | IsToday

text \<open>
  The badge \<open>renderTask\<close> creates for a task: none when \<open>dueDate\<close> is falsy, else its text
  and the classes added to \<^verbatim>\<open>stb-date-badge\<close>. The task is returned with it, as the code
  leaves it.
\<close>

definition renderTask_dateBadge ::
  "date_format \<Rightarrow> string \<Rightarrow> string \<Rightarrow> Task \<Rightarrow> Task \<times> (string \<times> badge_class list) option" where
  "renderTask_dateBadge format locale todayStr task =
     (case dueDate task of
        None \<Rightarrow> (task, None)
      | Some d \<Rightarrow>
          if d = [] then (task, None)
          else (task, Some (formatDate format locale d,
                  if d < todayStr then [IsOverdue]
                  else if d = todayStr then [IsToday]
                  else [])))"

section \<open>The handlers of renderCategory and renderTask that change the document\<close>

text \<open>
  These handlers are closures over the \<^verbatim>\<open>category\<close> and \<^verbatim>\<open>task\<close> objects of the
  rendering; \<open>refresh\<close> renders the document anew after every save, so the object is the
  category at the rendered index of the document, and the task at its index in that
  category. For an index that addresses nothing there is no handler, and the plugin is
  returned as it is.
\<close>

definition COLORS :: "(string \<times> string) list" where
  "COLORS =
     [(''Default'', []),
      (''Red'', ''rgba(233, 30, 99, 0.1)''),
      (''Green'', ''rgba(76, 175, 80, 0.1)''),
      (''Blue'', ''rgba(33, 150, 243, 0.1)''),
      (''Yellow'', ''rgba(255, 235, 59, 0.1)''),
      (''Purple'', ''rgba(156, 39, 176, 0.1)''),
      (''Grey'', ''rgba(158, 158, 158, 0.1)'')]"

definition withCategoryAt ::
  "nat \<Rightarrow> Category \<Rightarrow> SimpleTasksBlocksPlugin \<Rightarrow> SimpleTasksBlocksPlugin" where
  "withCategoryAt index category st =
     withCategories ((categories (settings st))[index := category]) st"

definition withTaskAt ::
  "nat \<Rightarrow> nat \<Rightarrow> Task \<Rightarrow> SimpleTasksBlocksPlugin \<Rightarrow> SimpleTasksBlocksPlugin" where
  "withTaskAt index taskIndex task st =
     (let category = categories (settings st) ! index
      in withCategoryAt index (category\<lparr>tasks := (tasks category)[taskIndex := task]\<rparr>) st)"

text \<open>The item of the colour menu for \<open>colorName\<close>: \<^verbatim>\<open>category.color = COLORS[colorName]\<close>.\<close>

definition color_onClick ::
  "nat \<Rightarrow> string \<Rightarrow> SimpleTasksBlocksPlugin \<Rightarrow> SimpleTasksBlocksPlugin" where
  "color_onClick index colorName st =
     (let cs = categories (settings st)
      in if index < length cs
         then saveSettings
                (withCategoryAt index ((cs ! index)\<lparr>color := map_of COLORS colorName\<rparr>) st)
         else st)"

text \<open>The chevron: \<^verbatim>\<open>category.isCollapsed = !category.isCollapsed\<close>.\<close>

definition chevron_click :: "nat \<Rightarrow> SimpleTasksBlocksPlugin \<Rightarrow> SimpleTasksBlocksPlugin" where
  "chevron_click index st =
     (let cs = categories (settings st)
      in if index < length cs
         then saveSettings
                (withCategoryAt index
                   ((cs ! index)\<lparr>isCollapsed := Some (isCollapsed (cs ! index) \<noteq> Some True)\<rparr>) st)
         else st)"

text \<open>
  \<open>save\<close> of \<open>makeEditable\<close>, run on Enter and on blur, and the two \<open>onSave\<close> callbacks it is
  given: of the category title and of the task text.
\<close>

definition makeEditable_save ::
  "string \<Rightarrow> (string \<Rightarrow> SimpleTasksBlocksPlugin \<Rightarrow> SimpleTasksBlocksPlugin) \<Rightarrow>
     SimpleTasksBlocksPlugin \<Rightarrow> SimpleTasksBlocksPlugin" where
  "makeEditable_save inputValue onSave st =
     (let newText = trim inputValue
      in if newText = [] then st else onSave newText st)"

definition title_onSave ::
  "nat \<Rightarrow> string \<Rightarrow> SimpleTasksBlocksPlugin \<Rightarrow> SimpleTasksBlocksPlugin" where
  "title_onSave index newText st =
     (let cs = categories (settings st)
      in if index < length cs
         then (if newText \<noteq> [] \<and> newText \<noteq> cat_name (cs ! index)
               then saveSettings (withCategoryAt index ((cs ! index)\<lparr>cat_name := newText\<rparr>) st)
               else st)
         else st)"

definition taskText_onSave ::
  "nat \<Rightarrow> nat \<Rightarrow> string \<Rightarrow> SimpleTasksBlocksPlugin \<Rightarrow> SimpleTasksBlocksPlugin" where
  "taskText_onSave index taskIndex newText st =
     (let cs = categories (settings st)
      in if index < length cs \<and> taskIndex < length (tasks (cs ! index))
         then (let task = tasks (cs ! index) ! taskIndex
               in if newText \<noteq> [] \<and> newText \<noteq> task_text task
                  then saveSettings (withTaskAt index taskIndex (task\<lparr>task_text := newText\<rparr>) st)
                  else st)
         else st)"

text \<open>
  The change handler of the date input of a task; \<open>dateValue\<close> is the input's value, the
  empty string when the date was cleared.
\<close>

definition dateEditInput_change ::
  "nat \<Rightarrow> nat \<Rightarrow> string \<Rightarrow> SimpleTasksBlocksPlugin \<Rightarrow> SimpleTasksBlocksPlugin" where
  "dateEditInput_change index taskIndex dateValue st =
     (let cs = categories (settings st)
      in if index < length cs \<and> taskIndex < length (tasks (cs ! index))
         then (let task = tasks (cs ! index) ! taskIndex
               in if Some dateValue \<noteq> dueDate task
                  then saveSettings (withTaskAt index taskIndex (task\<lparr>dueDate := Some dateValue\<rparr>) st)
                  else st)
         else st)"

section \<open>The callers that read text fields\<close>



section \<open>Notions of the specification\<close>

text \<open>The notions the properties of the sort are stated with.\<close>

definition effectiveDate :: "string \<Rightarrow> Task \<Rightarrow> string" where
  "effectiveDate today t = (if truthy (dueDate t) then the (dueDate t) else today)"

fun flip :: "sort_order \<Rightarrow> sort_order" where
  "flip Asc = Desc"
| "flip Desc = Asc"

definition priorOrder :: "Category \<Rightarrow> sort_order" where
  "priorOrder c = (case lastSortOrder c of None \<Rightarrow> Desc | Some ord \<Rightarrow> ord)"

definition in_direction :: "sort_order \<Rightarrow> string \<Rightarrow> string \<Rightarrow> bool" where
  "in_direction ord x y = (case ord of Asc \<Rightarrow> x \<le> y | Desc \<Rightarrow> y \<le> x)"

text \<open>
  The single-element list move: removing the element at an index shifts the later ones
  down by one, then the element is put back in at an index of the shorter list.
\<close>

definition remove_at :: "nat \<Rightarrow> 'a list \<Rightarrow> 'a list" where
  "remove_at i xs = take i xs @ drop (Suc i) xs"

definition insert_at :: "nat \<Rightarrow> 'a \<Rightarrow> 'a list \<Rightarrow> 'a list" where
  "insert_at j x xs = take j xs @ x # drop j xs"

text \<open>
  One persistence write, of the document as the operation leaves it, and one refresh of the
  view when a view is attached.
\<close>

definition persisted_once :: "SimpleTasksBlocksPlugin \<Rightarrow> SimpleTasksBlocksPlugin \<Rightarrow> bool" where
  "persisted_once st st' \<longleftrightarrow>
     saved st' = settings st' # saved st \<and>
     refreshes st' = (if view st then Suc (refreshes st) else refreshes st)"



definition categoryIds :: "SimpleTasksBlocksPlugin \<Rightarrow> string list" where
  "categoryIds st = map cat_id (categories (settings st))"

definition taskIds :: "SimpleTasksBlocksPlugin \<Rightarrow> string list" where
  "taskIds st = map task_id (concat (map tasks (categories (settings st))))"

text \<open>A document to evaluate the operations on.\<close>

definition exampleTasks :: "Task list" where
  "exampleTasks =
     [\<lparr>task_id = ''A'', task_text = ''a'', completed = False, dueDate = Some ''2024-01-01''\<rparr>,
      \<lparr>task_id = ''B'', task_text = ''b'', completed = True, dueDate = None\<rparr>,
      \<lparr>task_id = ''C'', task_text = ''c'', completed = False, dueDate = Some ''2024-01-01''\<rparr>]"

definition exampleWork :: Category where
  "exampleWork =
     \<lparr>cat_id = ''1'', cat_name = ''Work'', tasks = exampleTasks, isCollapsed = Some False,
      color = Some [], lastSortOrder = None\<rparr>"

definition exampleHome :: Category where
  "exampleHome =
     \<lparr>cat_id = ''2'', cat_name = ''Home'', tasks = [], isCollapsed = Some True,
      color = None, lastSortOrder = Some Asc\<rparr>"

definition examplePlugin :: SimpleTasksBlocksPlugin where
  "examplePlugin =
     \<lparr>settings = \<lparr>categories = [exampleWork, exampleHome], confirmTaskDeletion = False,
                  dateFormat = Automatic\<rparr>,
      view = True, saved = [], refreshes = 1, notices = []\<rparr>"

section \<open>Lemmas\<close>

lemma settings_saveSettings [simp]: "settings (saveSettings st) = settings st"
  by (simp add: saveSettings_def Let_def)

lemma saved_saveSettings [simp]: "saved (saveSettings st) = settings st # saved st"
  by (simp add: saveSettings_def Let_def)

lemma refreshes_saveSettings [simp]:
  "refreshes (saveSettings st) = (if view st then Suc (refreshes st) else refreshes st)"
  by (simp add: saveSettings_def Let_def)

lemma view_saveSettings [simp]: "view (saveSettings st) = view st"
  by (simp add: saveSettings_def Let_def)

lemma notices_saveSettings [simp]: "notices (saveSettings st) = notices st"
  by (simp add: saveSettings_def Let_def)

lemma or_else_effectiveDate: "or_else (dueDate t) today = effectiveDate today t"
  by (simp add: or_else_def effectiveDate_def truthy_def split: option.splits)

lemma compareTasks_le:
  "compareTasks ord today a b \<le> 0 \<longleftrightarrow>
     in_direction ord (effectiveDate today a) (effectiveDate today b)"
  by (cases ord) (auto simp: compareTasks_def or_else_effectiveDate in_direction_def Let_def)

lemma compareTasks_eq:
  "effectiveDate today a = effectiveDate today b \<Longrightarrow> compareTasks ord today a b \<le> 0"
  by (simp add: compareTasks_def or_else_effectiveDate)

lemma in_direction_trans:
  "in_direction ord x y \<Longrightarrow> in_direction ord y z \<Longrightarrow> in_direction ord x z"
  by (cases ord) (auto simp: in_direction_def)

lemma in_direction_total: "in_direction ord x y \<or> in_direction ord y x"
  by (cases ord) (auto simp: in_direction_def)

lemma set_insert_by: "set (insert_by cmp x xs) = insert x (set xs)"
  by (induction xs) auto

lemma mset_insert_by: "mset (insert_by cmp x xs) = add_mset x (mset xs)"
  by (induction xs) auto

lemma mset_array_sort: "mset (array_sort cmp xs) = mset xs"
  unfolding array_sort_def by (induction xs) (auto simp: mset_insert_by)

lemma sorted_insert_by:
  assumes "sorted_wrt (\<lambda>a b. in_direction ord (effectiveDate today a) (effectiveDate today b)) xs"
  shows "sorted_wrt (\<lambda>a b. in_direction ord (effectiveDate today a) (effectiveDate today b))
           (insert_by (compareTasks ord today) x xs)"
  using assms
proof (induction xs)
  case Nil
  then show ?case by simp
next
  case (Cons y ys)
  show ?case
  proof (cases "compareTasks ord today x y \<le> 0")
    case True
    then have xy: "in_direction ord (effectiveDate today x) (effectiveDate today y)"
      by (simp add: compareTasks_le)
    have "\<forall>z\<in>set ys. in_direction ord (effectiveDate today x) (effectiveDate today z)"
      using Cons.prems xy by (auto intro: in_direction_trans)
    with True xy Cons.prems show ?thesis by simp
  next
    case False
    then have "in_direction ord (effectiveDate today y) (effectiveDate today x)"
      using in_direction_total [of ord "effectiveDate today x" "effectiveDate today y"]
      by (simp add: compareTasks_le)
    with False Cons show ?thesis by (auto simp: set_insert_by)
  qed
qed

lemma sorted_array_sort:
  "sorted_wrt (\<lambda>a b. in_direction ord (effectiveDate today a) (effectiveDate today b))
     (array_sort (compareTasks ord today) xs)"
  unfolding array_sort_def by (induction xs) (simp_all add: sorted_insert_by)

lemma filter_insert_by:
  "filter (\<lambda>t. effectiveDate today t = d) (insert_by (compareTasks ord today) x xs) =
     (if effectiveDate today x = d then x # filter (\<lambda>t. effectiveDate today t = d) xs
      else filter (\<lambda>t. effectiveDate today t = d) xs)"
proof (induction xs)
  case Nil
  then show ?case by simp
next
  case (Cons y ys)
  show ?case
  proof (cases "compareTasks ord today x y \<le> 0")
    case True
    then show ?thesis by simp
  next
    case False
    then have "effectiveDate today x \<noteq> effectiveDate today y"
      using compareTasks_eq by blast
    with False Cons show ?thesis by auto
  qed
qed

lemma stable_array_sort:
  "filter (\<lambda>t. effectiveDate today t = d) (array_sort (compareTasks ord today) xs) =
     filter (\<lambda>t. effectiveDate today t = d) xs"
  unfolding array_sort_def by (induction xs) (simp_all add: filter_insert_by)

lemma find_update_first:
  "find p xs = Some x \<Longrightarrow> p (f x) \<Longrightarrow> find p (update_first p f xs) = Some (f x)"
  by (induction xs) (auto split: if_splits)

lemma update_first_split:
  "find p xs = Some x \<Longrightarrow>
     \<exists>pre post. xs = pre @ x # post \<and> (\<forall>y\<in>set pre. \<not> p y) \<and>
        update_first p f xs = pre @ f x # post"
proof (induction xs)
  case Nil
  then show ?case by simp
next
  case (Cons a as)
  show ?case
  proof (cases "p a")
    case True
    with Cons.prems have "a = x" by simp
    with True show ?thesis by (intro exI [of _ "[]"] exI [of _ as]) simp
  next
    case False
    with Cons obtain pre post where
      "as = pre @ x # post" "\<forall>y\<in>set pre. \<not> p y" "update_first p f as = pre @ f x # post"
      by auto
    with False show ?thesis by (intro exI [of _ "a # pre"] exI [of _ post]) simp
  qed
qed

lemma newOrder_flip:
  "(if (case lastSortOrder c of None \<Rightarrow> Desc | Some ord \<Rightarrow> ord) = Asc then Desc else Asc) =
     flip (priorOrder c)"
  by (cases "lastSortOrder c"; cases "priorOrder c") (auto simp: priorOrder_def)

lemma findCategory_sortCategoryTasks:
  assumes "findCategory cid st = Some c"
  shows "findCategory cid (sortCategoryTasks today cid st) =
           Some (c\<lparr>tasks := array_sort (compareTasks (flip (priorOrder c)) today) (tasks c),
                   lastSortOrder := Some (flip (priorOrder c))\<rparr>)"
proof -
  from assms have "cat_id c = cid"
    by (auto simp: findCategory_def find_Some_iff)
  with assms show ?thesis
    by (simp add: sortCategoryTasks_def newOrder_flip Let_def findCategory_def
        updateCategory_def saveSettings_def Notice_def find_update_first)
qed

lemma categories_withCategories [simp]:
  "categories (settings (withCategories cs st)) = cs"
  by (simp add: withCategories_def)

lemma length_remove_at: "i < length xs \<Longrightarrow> length (remove_at i xs) = length xs - 1"
  by (simp add: remove_at_def)

lemma length_insert_at: "length (insert_at j x ys) = Suc (length ys)"
  by (simp add: insert_at_def)

lemma nth_insert_at: "j \<le> length ys \<Longrightarrow> insert_at j x ys ! j = x"
  by (simp add: insert_at_def nth_append)

lemma remove_insert_at: "j \<le> length ys \<Longrightarrow> remove_at j (insert_at j x ys) = ys"
  by (simp add: insert_at_def remove_at_def)

lemma insert_remove_at: "i < length xs \<Longrightarrow> insert_at i (xs ! i) (remove_at i xs) = xs"
  by (simp add: insert_at_def remove_at_def Cons_nth_drop_Suc)

lemma splice_start_in_bounds: "0 \<le> i \<Longrightarrow> nat i \<le> n \<Longrightarrow> splice_start i n = nat i"
  by (simp add: splice_start_def)

lemma splice_start_past_end: "int n \<le> i \<Longrightarrow> splice_start i n = n"
  by (simp add: splice_start_def)

lemma reorderCategories_from_in_bounds:
  assumes "0 \<le> i" "i < int (length (categories (settings st)))"
  shows "reorderCategories i j st =
    Some (saveSettings (withCategories
      (insert_at (splice_start j (length (categories (settings st)) - 1))
         (categories (settings st) ! nat i) (remove_at (nat i) (categories (settings st)))) st))"
proof -
  let ?cs = "categories (settings st)"
  from assms have i: "nat i < length ?cs" by simp
  with assms have "splice_start i (length ?cs) = nat i"
    by (simp add: splice_start_in_bounds)
  moreover from i have "drop (nat i) ?cs = ?cs ! nat i # drop (Suc (nat i)) ?cs"
    by (simp add: Cons_nth_drop_Suc)
  moreover from i have "length (take (nat i) ?cs @ drop (Suc (nat i)) ?cs) = length ?cs - 1"
    by simp
  ultimately show ?thesis
    by (simp add: reorderCategories_def Let_def insert_at_def remove_at_def withCategories_def)
qed

lemma withCategories_effects [simp]:
  "saved (withCategories cs st) = saved st"
  "refreshes (withCategories cs st) = refreshes st"
  "view (withCategories cs st) = view st"
  by (simp_all add: withCategories_def)

lemma withCategoryAt_effects [simp]:
  "saved (withCategoryAt i c st) = saved st"
  "refreshes (withCategoryAt i c st) = refreshes st"
  "view (withCategoryAt i c st) = view st"
  by (simp_all add: withCategoryAt_def)

lemma withTaskAt_effects [simp]:
  "saved (withTaskAt i k t st) = saved st"
  "refreshes (withTaskAt i k t st) = refreshes st"
  "view (withTaskAt i k t st) = view st"
  by (simp_all add: withTaskAt_def Let_def)

lemma persisted_once_saveSettings:
  "saved st1 = saved st \<Longrightarrow> refreshes st1 = refreshes st \<Longrightarrow> view st1 = view st \<Longrightarrow>
     persisted_once st (saveSettings st1)"
  by (simp add: persisted_once_def)

lemma updateCategory_effects [simp]:
  "saved (updateCategory cid f st) = saved st"
  "refreshes (updateCategory cid f st) = refreshes st"
  "view (updateCategory cid f st) = view st"
  by (simp_all add: updateCategory_def)

lemma persisted_once_Notice:
  "persisted_once st st1 \<Longrightarrow> persisted_once st (Notice msg st1)"
  by (simp add: persisted_once_def Notice_def)







section \<open>Claims\<close>

text \<open>
  C1. For a category present in the document, \<open>sortCategoryTasks\<close> on its id takes as new
  direction the flip of the category's \<open>lastSortOrder\<close>, descending being the prior state of
  a category never sorted (so the first sort is ascending); the category found under that id
  afterwards is the same category with the new direction stored in \<open>lastSortOrder\<close> and with
  its tasks stably sorted by effective date: the new sequence is ordered in the new
  direction under the string order, and for every date the tasks with that effective date
  are the same, in the same relative order, as before. The effective date is the task's
  \<open>dueDate\<close>, or today's date when the task has none (\<^verbatim>\<open>undefined\<close>, or the empty string the
  date editor stores when a date is cleared).
\<close>

theorem sortCategoryTasks_stable_sort:
  assumes "findCategory cid st = Some c"
  shows "\<exists>ts. findCategory cid (sortCategoryTasks today cid st) =
             Some (c\<lparr>tasks := ts, lastSortOrder := Some (flip (priorOrder c))\<rparr>) \<and>
           sorted_wrt (\<lambda>a b. in_direction (flip (priorOrder c))
                        (effectiveDate today a) (effectiveDate today b)) ts \<and>
           (\<forall>d. filter (\<lambda>t. effectiveDate today t = d) ts =
                filter (\<lambda>t. effectiveDate today t = d) (tasks c)) \<and>
           (lastSortOrder c = None \<longrightarrow> flip (priorOrder c) = Asc)"
proof (intro exI conjI)
  show "findCategory cid (sortCategoryTasks today cid st) =
          Some (c\<lparr>tasks := array_sort (compareTasks (flip (priorOrder c)) today) (tasks c),
                  lastSortOrder := Some (flip (priorOrder c))\<rparr>)"
    using assms by (rule findCategory_sortCategoryTasks)
  show "sorted_wrt (\<lambda>a b. in_direction (flip (priorOrder c))
                     (effectiveDate today a) (effectiveDate today b))
          (array_sort (compareTasks (flip (priorOrder c)) today) (tasks c))"
    by (rule sorted_array_sort)
  show "\<forall>d. filter (\<lambda>t. effectiveDate today t = d)
               (array_sort (compareTasks (flip (priorOrder c)) today) (tasks c)) =
            filter (\<lambda>t. effectiveDate today t = d) (tasks c)"
    by (simp add: stable_array_sort)
  show "lastSortOrder c = None \<longrightarrow> flip (priorOrder c) = Asc"
    by (simp add: priorOrder_def)
qed

theorem sortCategoryTasks_stable_sort_witness:
  "findCategory ''1'' examplePlugin = Some exampleWork \<and>
   (\<exists>ts. findCategory ''1'' (sortCategoryTasks ''2024-01-02'' ''1'' examplePlugin) =
            Some (exampleWork\<lparr>tasks := ts,
                    lastSortOrder := Some (flip (priorOrder exampleWork))\<rparr>) \<and>
          sorted_wrt (\<lambda>a b. in_direction (flip (priorOrder exampleWork))
                       (effectiveDate ''2024-01-02'' a) (effectiveDate ''2024-01-02'' b)) ts \<and>
          (\<forall>d. filter (\<lambda>t. effectiveDate ''2024-01-02'' t = d) ts =
               filter (\<lambda>t. effectiveDate ''2024-01-02'' t = d) (tasks exampleWork)) \<and>
          (lastSortOrder exampleWork = None \<longrightarrow> flip (priorOrder exampleWork) = Asc))"
proof -
  have h: "findCategory ''1'' examplePlugin = Some exampleWork"
    by (simp add: findCategory_def examplePlugin_def exampleWork_def exampleHome_def)
  show ?thesis
    using h sortCategoryTasks_stable_sort [OF h, of "''2024-01-02''"] by simp
qed

text \<open>
  C2, as the code has it. Nothing is written and the view is not refreshed, the plugin
  being returned as it was, when a lookup fails or a rename or a date edit changes nothing:
  \<open>addTask\<close>, \<open>toggleTask\<close>, \<open>deleteTask\<close> and \<open>sortCategoryTasks\<close> with a category id that is
  not in the document, \<open>toggleTask\<close> with a task id that is not in the category, a category
  title or a task text edited to a text that is empty after trimming or is the old one, and
  a due date edited to the date the task has. Every operation that goes through writes the
  resulting document once and refreshes an attached view once: \<open>addTask\<close>, \<open>deleteTask\<close>,
  \<open>sortCategoryTasks\<close> and \<open>toggleTask\<close> that find what they look up, a title, a task text
  or a due date edited to a new value, and, with no lookup and no comparison and so
  whether the document changes or not, \<open>deleteCategory\<close> with any id, \<open>addCategory\<close>, the
  colour menu, the chevron, \<open>toggleAllCategories\<close>, \<open>cleanCompletedTasks\<close> and a
  \<open>reorderCategories\<close> that completes.
\<close>

theorem persistence_per_operation:
  fixes st :: SimpleTasksBlocksPlugin
  defines "cs \<equiv> categories (settings st)"
  shows
  "(findCategory missing st = None \<longrightarrow>
      addTask now missing taskText due st = st \<and>
      toggleTask missing tid b st = st \<and>
      deleteTask missing tid st = st \<and>
      sortCategoryTasks today missing st = st) \<and>
   (findCategory cid st = Some c \<and> find (\<lambda>t. task_id t = gone) (tasks c) = None \<longrightarrow>
      toggleTask cid gone b st = st) \<and>
   (index < length cs \<and> (trim keptName = [] \<or> trim keptName = cat_name (cs ! index)) \<longrightarrow>
      makeEditable_save keptName (title_onSave index) st = st) \<and>
   (index < length cs \<and> taskIndex < length (tasks (cs ! index)) \<and>
    (trim keptText = [] \<or> trim keptText = task_text (tasks (cs ! index) ! taskIndex)) \<longrightarrow>
      makeEditable_save keptText (taskText_onSave index taskIndex) st = st) \<and>
   (index < length cs \<and> taskIndex < length (tasks (cs ! index)) \<and>
    Some keptDate = dueDate (tasks (cs ! index) ! taskIndex) \<longrightarrow>
      dateEditInput_change index taskIndex keptDate st = st) \<and>
   (findCategory cid st = Some c \<longrightarrow>
      persisted_once st (addTask now cid taskText due st) \<and>
      persisted_once st (deleteTask cid tid st) \<and>
      persisted_once st (sortCategoryTasks today cid st)) \<and>
   (findCategory cid st = Some c \<and> find (\<lambda>t. task_id t = tid) (tasks c) = Some t \<longrightarrow>
      persisted_once st (toggleTask cid tid b st)) \<and>
   (index < length cs \<and> trim newName \<noteq> [] \<and> trim newName \<noteq> cat_name (cs ! index) \<longrightarrow>
      persisted_once st (makeEditable_save newName (title_onSave index) st)) \<and>
   (index < length cs \<and> taskIndex < length (tasks (cs ! index)) \<and>
    trim newText \<noteq> [] \<and> trim newText \<noteq> task_text (tasks (cs ! index) ! taskIndex) \<longrightarrow>
      persisted_once st (makeEditable_save newText (taskText_onSave index taskIndex) st)) \<and>
   (index < length cs \<and> taskIndex < length (tasks (cs ! index)) \<and>
    Some newDate \<noteq> dueDate (tasks (cs ! index) ! taskIndex) \<longrightarrow>
      persisted_once st (dateEditInput_change index taskIndex newDate st)) \<and>
   (index < length cs \<longrightarrow>
      persisted_once st (color_onClick index colorName st) \<and>
      persisted_once st (chevron_click index st)) \<and>
   persisted_once st (deleteCategory ident st) \<and>
   persisted_once st (addCategory nowCategory nowTask name firstTaskText due st) \<and>
   persisted_once st (toggleAllCategories st) \<and>
   persisted_once st (cleanCompletedTasks st) \<and>
   (reorderCategories i j st = Some st' \<longrightarrow> persisted_once st st')"
proof (intro conjI impI)
  assume "findCategory missing st = None"
  then show "addTask now missing taskText due st = st" "toggleTask missing tid b st = st"
    "deleteTask missing tid st = st" "sortCategoryTasks today missing st = st"
    by (simp_all add: addTask_def toggleTask_def deleteTask_def sortCategoryTasks_def)
next
  assume "findCategory cid st = Some c \<and> find (\<lambda>t. task_id t = gone) (tasks c) = None"
  then show "toggleTask cid gone b st = st"
    by (simp add: toggleTask_def)
next
  assume "index < length cs \<and> (trim keptName = [] \<or> trim keptName = cat_name (cs ! index))"
  then show "makeEditable_save keptName (title_onSave index) st = st"
    by (auto simp: makeEditable_save_def title_onSave_def cs_def Let_def)
next
  assume "index < length cs \<and> taskIndex < length (tasks (cs ! index)) \<and>
    (trim keptText = [] \<or> trim keptText = task_text (tasks (cs ! index) ! taskIndex))"
  then show "makeEditable_save keptText (taskText_onSave index taskIndex) st = st"
    by (auto simp: makeEditable_save_def taskText_onSave_def cs_def Let_def)
next
  assume "index < length cs \<and> taskIndex < length (tasks (cs ! index)) \<and>
    Some keptDate = dueDate (tasks (cs ! index) ! taskIndex)"
  then show "dateEditInput_change index taskIndex keptDate st = st"
    by (simp add: dateEditInput_change_def cs_def Let_def)
next
  assume "findCategory cid st = Some c"
  then show "persisted_once st (addTask now cid taskText due st)"
    "persisted_once st (deleteTask cid tid st)"
    "persisted_once st (sortCategoryTasks today cid st)"
    by (simp_all add: addTask_def deleteTask_def sortCategoryTasks_def Let_def
        persisted_once_saveSettings persisted_once_Notice)
next
  assume "findCategory cid st = Some c \<and> find (\<lambda>t. task_id t = tid) (tasks c) = Some t"
  then show "persisted_once st (toggleTask cid tid b st)"
    by (simp add: toggleTask_def persisted_once_saveSettings)
next
  assume "index < length cs \<and> trim newName \<noteq> [] \<and> trim newName \<noteq> cat_name (cs ! index)"
  then show "persisted_once st (makeEditable_save newName (title_onSave index) st)"
    by (simp add: makeEditable_save_def title_onSave_def cs_def Let_def
        persisted_once_saveSettings)
next
  assume "index < length cs \<and> taskIndex < length (tasks (cs ! index)) \<and>
    trim newText \<noteq> [] \<and> trim newText \<noteq> task_text (tasks (cs ! index) ! taskIndex)"
  then show "persisted_once st (makeEditable_save newText (taskText_onSave index taskIndex) st)"
    by (simp add: makeEditable_save_def taskText_onSave_def cs_def Let_def
        persisted_once_saveSettings)
next
  assume "index < length cs \<and> taskIndex < length (tasks (cs ! index)) \<and>
    Some newDate \<noteq> dueDate (tasks (cs ! index) ! taskIndex)"
  then show "persisted_once st (dateEditInput_change index taskIndex newDate st)"
    by (simp add: dateEditInput_change_def cs_def Let_def persisted_once_saveSettings)
next
  assume "index < length cs"
  then show "persisted_once st (color_onClick index colorName st)"
    "persisted_once st (chevron_click index st)"
    by (simp_all add: color_onClick_def chevron_click_def cs_def Let_def
        persisted_once_saveSettings)
next
  show "persisted_once st (deleteCategory ident st)"
    by (simp add: deleteCategory_def persisted_once_saveSettings)
  show "persisted_once st (addCategory nowCategory nowTask name firstTaskText due st)"
    by (simp add: addCategory_def Let_def persisted_once_saveSettings)
  show "persisted_once st (toggleAllCategories st)"
    by (simp add: toggleAllCategories_def Let_def persisted_once_saveSettings)
  show "persisted_once st (cleanCompletedTasks st)"
    by (simp add: cleanCompletedTasks_def persisted_once_saveSettings)
next
  assume "reorderCategories i j st = Some st'"
  then show "persisted_once st st'"
    by (auto simp: reorderCategories_def Let_def persisted_once_saveSettings
        split: list.splits)
qed

theorem persistence_per_operation_witness:
  "findCategory ''9'' examplePlugin = None \<and>
   (findCategory ''1'' examplePlugin = Some exampleWork \<and>
    find (\<lambda>t. task_id t = ''Z'') (tasks exampleWork) = None) \<and>
   find (\<lambda>t. task_id t = ''A'') (tasks exampleWork) = Some (exampleTasks ! 0) \<and>
   (0 < length (categories (settings examplePlugin)) \<and>
    0 < length (tasks (categories (settings examplePlugin) ! 0))) \<and>
   trim '' Work '' = cat_name (categories (settings examplePlugin) ! 0) \<and>
   trim ''a'' = task_text (tasks (categories (settings examplePlugin) ! 0) ! 0) \<and>
   Some ''2024-01-01'' = dueDate (tasks (categories (settings examplePlugin) ! 0) ! 0) \<and>
   (trim ''Job'' \<noteq> [] \<and> trim ''Job'' \<noteq> cat_name (categories (settings examplePlugin) ! 0)) \<and>
   (trim ''z'' \<noteq> [] \<and>
    trim ''z'' \<noteq> task_text (tasks (categories (settings examplePlugin) ! 0) ! 0)) \<and>
   Some ''2024-02-01'' \<noteq> dueDate (tasks (categories (settings examplePlugin) ! 0) ! 0) \<and>
   reorderCategories 0 1 examplePlugin =
     Some (saveSettings (withCategories [exampleHome, exampleWork] examplePlugin)) \<and>
   addTask 5 ''9'' ''x'' None examplePlugin = examplePlugin \<and>
   sortCategoryTasks ''2024-01-02'' ''9'' examplePlugin = examplePlugin \<and>
   toggleTask ''1'' ''Z'' True examplePlugin = examplePlugin \<and>
   makeEditable_save '' Work '' (title_onSave 0) examplePlugin = examplePlugin \<and>
   makeEditable_save ''a'' (taskText_onSave 0 0) examplePlugin = examplePlugin \<and>
   dateEditInput_change 0 0 ''2024-01-01'' examplePlugin = examplePlugin \<and>
   persisted_once examplePlugin (addTask 5 ''1'' ''x'' None examplePlugin) \<and>
   persisted_once examplePlugin (toggleTask ''1'' ''A'' True examplePlugin) \<and>
   persisted_once examplePlugin (makeEditable_save ''Job'' (title_onSave 0) examplePlugin) \<and>
   persisted_once examplePlugin (makeEditable_save ''z'' (taskText_onSave 0 0) examplePlugin) \<and>
   persisted_once examplePlugin (dateEditInput_change 0 0 ''2024-02-01'' examplePlugin) \<and>
   persisted_once examplePlugin (color_onClick 0 ''Red'' examplePlugin) \<and>
   persisted_once examplePlugin (chevron_click 0 examplePlugin) \<and>
   persisted_once examplePlugin (deleteCategory ''9'' examplePlugin) \<and>
   persisted_once examplePlugin
     (saveSettings (withCategories [exampleHome, exampleWork] examplePlugin))"
proof -
  have h1: "findCategory ''9'' examplePlugin = None"
    and h2: "findCategory ''1'' examplePlugin = Some exampleWork"
    by (simp_all add: findCategory_def examplePlugin_def exampleWork_def exampleHome_def)
  have h3: "find (\<lambda>t. task_id t = ''Z'') (tasks exampleWork) = None"
    and h4: "find (\<lambda>t. task_id t = ''A'') (tasks exampleWork) = Some (exampleTasks ! 0)"
    by (simp_all add: exampleWork_def exampleTasks_def)
  have h5: "reorderCategories 0 1 examplePlugin =
     Some (saveSettings (withCategories [exampleHome, exampleWork] examplePlugin))"
    by (simp add: reorderCategories_def examplePlugin_def withCategories_def splice_start_def)
  have c0: "categories (settings examplePlugin) ! 0 = exampleWork"
    and l0: "0 < length (categories (settings examplePlugin))"
    by (simp_all add: examplePlugin_def)
  have t0: "tasks exampleWork ! 0 =
      \<lparr>task_id = ''A'', task_text = ''a'', completed = False, dueDate = Some ''2024-01-01''\<rparr>"
    and l1: "0 < length (tasks exampleWork)"
    by (simp_all add: exampleWork_def exampleTasks_def)
  have n: "cat_name exampleWork = ''Work''"
    by (simp add: exampleWork_def)
  have k1: "trim '' Work '' = cat_name (categories (settings examplePlugin) ! 0)"
    and k2: "trim ''a'' = task_text (tasks (categories (settings examplePlugin) ! 0) ! 0)"
    and k3: "Some ''2024-01-01'' = dueDate (tasks (categories (settings examplePlugin) ! 0) ! 0)"
    and n1: "trim ''Job'' \<noteq> []"
      "trim ''Job'' \<noteq> cat_name (categories (settings examplePlugin) ! 0)"
    and n2: "trim ''z'' \<noteq> []"
      "trim ''z'' \<noteq> task_text (tasks (categories (settings examplePlugin) ! 0) ! 0)"
    and n3: "Some ''2024-02-01'' \<noteq> dueDate (tasks (categories (settings examplePlugin) ! 0) ! 0)"
    by (simp_all add: c0 t0 n trim_def is_space_def)
  from l1 have l2: "0 < length (tasks (categories (settings examplePlugin) ! 0))"
    by (simp add: c0)
  note T = persistence_per_operation [where st = examplePlugin and missing = "''9''"
      and cid = "''1''" and c = exampleWork and gone = "''Z''" and tid = "''A''"
      and t = "exampleTasks ! 0" and i = 0 and j = 1 and now = 5 and taskText = "''x''"
      and due = None and today = "''2024-01-02''" and b = True and ident = "''9''"
      and st' = "saveSettings (withCategories [exampleHome, exampleWork] examplePlugin)"
      and index = 0 and taskIndex = 0 and keptName = "'' Work ''" and keptText = "''a''"
      and keptDate = "''2024-01-01''" and newName = "''Job''" and newText = "''z''"
      and newDate = "''2024-02-01''" and colorName = "''Red''"]
  from T h1 h2 h3 h4 h5 l0 l2 k1 k2 k3 n1 n2 n3
  show ?thesis by blast
qed

text \<open>
  C2 as stated fails: \<open>deleteCategory\<close> with an id that no category has leaves the
  document as it was, and still writes it and refreshes the view.
\<close>

theorem deleteCategory_absent_id_counterexample:
  "findCategory ''9'' examplePlugin = None \<and>
   settings (deleteCategory ''9'' examplePlugin) = settings examplePlugin \<and>
   saved examplePlugin = [] \<and>
   saved (deleteCategory ''9'' examplePlugin) = [settings examplePlugin] \<and>
   refreshes (deleteCategory ''9'' examplePlugin) = Suc (refreshes examplePlugin)"
  by (simp add: findCategory_def deleteCategory_def examplePlugin_def exampleWork_def
      exampleHome_def)




text \<open>
  C4, as the code has it. For indices within the bounds, \<open>reorderCategories\<close> removes the
  category at \<open>fromIndex\<close> and puts it back at \<open>toIndex\<close> of the shorter sequence, and
  with \<open>fromIndex = toIndex\<close> the sequence is the one before. No index is checked and
  nothing is raised: a \<open>toIndex\<close> at or past the end puts the category last.
\<close>

theorem reorderCategories_move:
  fixes st :: SimpleTasksBlocksPlugin
  defines "cs \<equiv> categories (settings st)"
  shows "(0 \<le> i \<and> i < int (length cs) \<and> 0 \<le> j \<and> j < int (length cs) \<longrightarrow>
       reorderCategories i j st =
         Some (saveSettings (withCategories
           (insert_at (nat j) (cs ! nat i) (remove_at (nat i) cs)) st))) \<and>
    (0 \<le> i \<and> i < int (length cs) \<longrightarrow>
       reorderCategories i i st = Some (saveSettings (withCategories cs st))) \<and>
    (0 \<le> i \<and> i < int (length cs) \<and> int (length cs) \<le> k \<longrightarrow>
       reorderCategories i k st =
         Some (saveSettings (withCategories (remove_at (nat i) cs @ [cs ! nat i]) st)))"
proof (intro conjI impI)
  assume a: "0 \<le> i \<and> i < int (length cs) \<and> 0 \<le> j \<and> j < int (length cs)"
  then have "splice_start j (length cs - 1) = nat j"
    by (intro splice_start_in_bounds) auto
  with a show "reorderCategories i j st =
         Some (saveSettings (withCategories
           (insert_at (nat j) (cs ! nat i) (remove_at (nat i) cs)) st))"
    by (simp add: reorderCategories_from_in_bounds cs_def)
next
  assume a: "0 \<le> i \<and> i < int (length cs)"
  then have "splice_start i (length cs - 1) = nat i"
    by (intro splice_start_in_bounds) auto
  moreover from a have "insert_at (nat i) (cs ! nat i) (remove_at (nat i) cs) = cs"
    by (intro insert_remove_at) auto
  ultimately show "reorderCategories i i st = Some (saveSettings (withCategories cs st))"
    using a by (simp add: reorderCategories_from_in_bounds cs_def)
next
  assume a: "0 \<le> i \<and> i < int (length cs) \<and> int (length cs) \<le> k"
  then have "splice_start k (length cs - 1) = length cs - 1"
    by (intro splice_start_past_end) auto
  moreover from a have "length (remove_at (nat i) cs) = length cs - 1"
    by (intro length_remove_at) auto
  ultimately show "reorderCategories i k st =
         Some (saveSettings (withCategories (remove_at (nat i) cs @ [cs ! nat i]) st))"
    using a by (simp add: reorderCategories_from_in_bounds cs_def insert_at_def)
qed

theorem reorderCategories_move_witness:
  "(0 \<le> (0::int) \<and> 0 < int (length (categories (settings examplePlugin))) \<and>
    0 \<le> (1::int) \<and> 1 < int (length (categories (settings examplePlugin)))) \<and>
   int (length (categories (settings examplePlugin))) \<le> 7 \<and>
   reorderCategories 0 1 examplePlugin =
     Some (saveSettings (withCategories [exampleHome, exampleWork] examplePlugin)) \<and>
   reorderCategories 0 0 examplePlugin =
     Some (saveSettings (withCategories [exampleWork, exampleHome] examplePlugin)) \<and>
   reorderCategories 0 7 examplePlugin =
     Some (saveSettings (withCategories [exampleHome, exampleWork] examplePlugin))"
  using reorderCategories_move [where st = examplePlugin and i = 0 and j = 1 and k = 7]
  by (simp add: examplePlugin_def insert_at_def remove_at_def)

text \<open>
  C4 as stated fails: with two categories, \<open>toIndex = 5\<close> is out of bounds, and the
  operation completes, moves the first category to the end and saves.
\<close>

theorem reorderCategories_IndexError_counterexample:
  "\<not> 5 < int (length (categories (settings examplePlugin))) \<and>
   reorderCategories 0 5 examplePlugin =
     Some (saveSettings (withCategories [exampleHome, exampleWork] examplePlugin))"
  by (simp add: reorderCategories_def examplePlugin_def withCategories_def splice_start_def)

text \<open>
  C5. The badge of a task whose \<open>dueDate\<close> is a date \<open>d\<close> (a non-empty string) carries the
  class of an overdue task exactly when \<open>d < today\<close> in the string order, the class of a
  task due today exactly when \<open>d = today\<close>, and no class (the task is scheduled) exactly when
  \<open>today < d\<close>. A task without \<open>dueDate\<close> gets no badge. The task is left as it was.
\<close>

theorem renderTask_dateBadge_status:
  "fst (renderTask_dateBadge fmt loc today t) = t \<and>
   (dueDate t = Some d \<and> d \<noteq> [] \<longrightarrow>
      (\<exists>label classes. snd (renderTask_dateBadge fmt loc today t) = Some (label, classes) \<and>
         (classes = [IsOverdue] \<longleftrightarrow> d < today) \<and>
         (classes = [IsToday] \<longleftrightarrow> d = today) \<and>
         (classes = [] \<longleftrightarrow> today < d))) \<and>
   (\<not> truthy (dueDate u) \<longrightarrow> renderTask_dateBadge fmt loc today u = (u, None))"
  by (auto simp: renderTask_dateBadge_def truthy_def split: option.splits)

theorem renderTask_dateBadge_status_witness:
  "(dueDate (exampleTasks ! 0) = Some ''2024-01-01'' \<and> ''2024-01-01'' \<noteq> []) \<and>
   \<not> truthy (dueDate (exampleTasks ! 1)) \<and>
   snd (renderTask_dateBadge Automatic ''en'' ''2024-01-02'' (exampleTasks ! 0)) =
     Some (''2024-01-01'', [IsOverdue]) \<and>
   renderTask_dateBadge Automatic ''en'' ''2024-01-02'' (exampleTasks ! 1) =
     (exampleTasks ! 1, None)"
  using renderTask_dateBadge_status [of Automatic "''en''" "''2024-01-02''" "exampleTasks ! 0"
      "''2024-01-01''" "exampleTasks ! 1"]
  by (simp add: exampleTasks_def truthy_def renderTask_dateBadge_def formatDate_def)

text \<open>
  C6. \<open>cleanCompletedTasks\<close> keeps the categories, in their order and with their other
  fields, and replaces the task sequence of each by its tasks that are not completed, in
  their order: a task stays if and only if its \<open>completed\<close> flag is false. The two global
  settings are kept. The new document is written once, and the view is refreshed once.
\<close>

theorem cleanCompletedTasks_removes_completed:
  fixes st :: SimpleTasksBlocksPlugin
  defines "cs \<equiv> categories (settings st)"
    and "st' \<equiv> cleanCompletedTasks st"
  shows "length (categories (settings st')) = length cs \<and>
    (\<forall>i<length cs.
       categories (settings st') ! i =
         (cs ! i)\<lparr>tasks := filter (\<lambda>t. \<not> completed t) (tasks (cs ! i))\<rparr> \<and>
       set (tasks (categories (settings st') ! i)) = {t \<in> set (tasks (cs ! i)). \<not> completed t} \<and>
       subseq (tasks (categories (settings st') ! i)) (tasks (cs ! i))) \<and>
    confirmTaskDeletion (settings st') = confirmTaskDeletion (settings st) \<and>
    dateFormat (settings st') = dateFormat (settings st) \<and>
    saved st' = settings st' # saved st \<and>
    (view st \<longrightarrow> refreshes st' = Suc (refreshes st))"
proof -
  have cats: "categories (settings st') =
      map (\<lambda>c. c\<lparr>tasks := filter (\<lambda>t. \<not> completed t) (tasks c)\<rparr>) cs"
    by (simp add: cs_def st'_def cleanCompletedTasks_def)
  have "\<forall>i<length cs.
       categories (settings st') ! i =
         (cs ! i)\<lparr>tasks := filter (\<lambda>t. \<not> completed t) (tasks (cs ! i))\<rparr> \<and>
       set (tasks (categories (settings st') ! i)) = {t \<in> set (tasks (cs ! i)). \<not> completed t} \<and>
       subseq (tasks (categories (settings st') ! i)) (tasks (cs ! i))"
    by (simp add: cats)
  moreover have "length (categories (settings st')) = length cs"
    by (simp add: cats)
  moreover have "confirmTaskDeletion (settings st') = confirmTaskDeletion (settings st)"
    "dateFormat (settings st') = dateFormat (settings st)"
    "saved st' = settings st' # saved st"
    "view st \<longrightarrow> refreshes st' = Suc (refreshes st)"
    by (simp_all add: st'_def cleanCompletedTasks_def)
  ultimately show ?thesis by blast
qed

theorem cleanCompletedTasks_removes_completed_witness:
  "view examplePlugin \<and> 0 < length (categories (settings examplePlugin)) \<and>
   map task_id (tasks (categories (settings (cleanCompletedTasks examplePlugin)) ! 0)) =
     [''A'', ''C''] \<and>
   length (saved (cleanCompletedTasks examplePlugin)) = 1 \<and>
   refreshes (cleanCompletedTasks examplePlugin) = Suc (refreshes examplePlugin)"
proof -
  have v: "view examplePlugin" and l: "0 < length (categories (settings examplePlugin))"
    and s: "saved examplePlugin = []"
    by (simp_all add: examplePlugin_def)
  have c: "categories (settings examplePlugin) ! 0 = exampleWork"
    by (simp add: examplePlugin_def)
  note T = cleanCompletedTasks_removes_completed [of examplePlugin]
  from T l have "categories (settings (cleanCompletedTasks examplePlugin)) ! 0 =
      (categories (settings examplePlugin) ! 0)\<lparr>tasks := filter (\<lambda>t. \<not> completed t)
         (tasks (categories (settings examplePlugin) ! 0))\<rparr>"
    by blast
  then have "map task_id (tasks (categories (settings (cleanCompletedTasks examplePlugin)) ! 0)) =
     [''A'', ''C'']"
    by (simp add: c exampleWork_def exampleTasks_def)
  moreover from T v s have "length (saved (cleanCompletedTasks examplePlugin)) = 1"
    "refreshes (cleanCompletedTasks examplePlugin) = Suc (refreshes examplePlugin)"
    by simp_all
  ultimately show ?thesis using v l by blast
qed

text \<open>
  C7. After \<open>toggleAllCategories\<close> the \<open>isCollapsed\<close> flag of every category is one and the
  same value, namely whether some category was expanded (\<open>isCollapsed\<close> not true) before the
  call: all collapsed if at least one was expanded, all expanded if none was. The
  categories keep their order and their other fields.
\<close>

theorem toggleAllCategories_single_target:
  fixes st :: SimpleTasksBlocksPlugin
  defines "cs \<equiv> categories (settings st)"
    and "cs' \<equiv> categories (settings (toggleAllCategories st))"
  shows "(\<forall>c'\<in>set cs'. isCollapsed c' = Some (\<exists>c\<in>set cs. isCollapsed c \<noteq> Some True)) \<and>
    (\<forall>a\<in>set cs'. \<forall>b\<in>set cs'. isCollapsed a = isCollapsed b) \<and>
    length cs' = length cs \<and>
    (\<forall>i<length cs. cs' ! i = (cs ! i)\<lparr>isCollapsed := isCollapsed (cs' ! i)\<rparr>)"
  by (auto simp: cs_def cs'_def toggleAllCategories_def list_ex_iff Let_def)

theorem toggleAllCategories_single_target_witness:
  "0 < length (categories (settings examplePlugin)) \<and>
   isCollapsed (categories (settings examplePlugin) ! 0) = Some False \<and>
   categories (settings (toggleAllCategories examplePlugin)) ! 0 \<in>
     set (categories (settings (toggleAllCategories examplePlugin))) \<and>
   isCollapsed (categories (settings (toggleAllCategories examplePlugin)) ! 0) = Some True"
proof -
  note T = toggleAllCategories_single_target [of examplePlugin]
  have l: "0 < length (categories (settings examplePlugin))"
    and e: "isCollapsed (categories (settings examplePlugin) ! 0) = Some False"
    by (simp_all add: examplePlugin_def exampleWork_def)
  from T l have m: "categories (settings (toggleAllCategories examplePlugin)) ! 0 \<in>
     set (categories (settings (toggleAllCategories examplePlugin)))"
    by simp
  with T have "isCollapsed (categories (settings (toggleAllCategories examplePlugin)) ! 0) =
      Some (\<exists>c\<in>set (categories (settings examplePlugin)). isCollapsed c \<noteq> Some True)"
    by blast
  then have "isCollapsed (categories (settings (toggleAllCategories examplePlugin)) ! 0) =
      Some True"
    by (simp add: examplePlugin_def exampleWork_def)
  with l e m show ?thesis by blast
qed

text \<open>
  C8. For indices \<open>i \<noteq> j\<close> within the bounds, \<open>reorderCategories i j\<close> followed by
  \<open>reorderCategories j i\<close> on the result gives back the category sequence.
\<close>

theorem reorderCategories_round_trip:
  assumes "0 \<le> i" "i < int (length (categories (settings st)))"
    and "0 \<le> j" "j < int (length (categories (settings st)))" and "i \<noteq> j"
  shows "\<exists>st1 st2. reorderCategories i j st = Some st1 \<and>
           reorderCategories j i st1 = Some st2 \<and>
           categories (settings st2) = categories (settings st)"
proof -
  let ?cs = "categories (settings st)"
  let ?rest = "remove_at (nat i) ?cs"
  let ?st1 = "saveSettings (withCategories (insert_at (nat j) (?cs ! nat i) ?rest) st)"
  from assms have i: "nat i < length ?cs" and j: "nat j < length ?cs" by simp_all
  from i j have jr: "nat j \<le> length ?rest" by (simp add: length_remove_at)
  from i have ir: "nat i \<le> length ?rest" by (simp add: length_remove_at)
  from assms jr have 1: "reorderCategories i j st = Some ?st1"
    by (simp add: reorderCategories_from_in_bounds splice_start_in_bounds length_remove_at)
  have cs1: "categories (settings ?st1) = insert_at (nat j) (?cs ! nat i) ?rest"
    by simp
  from i have len1: "length (categories (settings ?st1)) = length ?cs"
    by (simp add: length_insert_at length_remove_at)
  from assms len1 have "reorderCategories j i ?st1 =
      Some (saveSettings (withCategories
        (insert_at (splice_start i (length (categories (settings ?st1)) - 1))
           (categories (settings ?st1) ! nat j)
           (remove_at (nat j) (categories (settings ?st1)))) ?st1))"
    by (intro reorderCategories_from_in_bounds) simp_all
  moreover from assms i have "splice_start i (length (categories (settings ?st1)) - 1) = nat i"
    unfolding len1 by (intro splice_start_in_bounds) auto
  moreover from jr have "categories (settings ?st1) ! nat j = ?cs ! nat i"
    unfolding cs1 by (rule nth_insert_at)
  moreover from jr have "remove_at (nat j) (categories (settings ?st1)) = ?rest"
    unfolding cs1 by (rule remove_insert_at)
  ultimately have 2: "reorderCategories j i ?st1 =
      Some (saveSettings (withCategories (insert_at (nat i) (?cs ! nat i) ?rest) ?st1))"
    by simp
  from i have "insert_at (nat i) (?cs ! nat i) ?rest = ?cs"
    by (rule insert_remove_at)
  with 1 2 show ?thesis by simp
qed

theorem reorderCategories_round_trip_witness:
  "(0 \<le> (0::int) \<and> 0 < int (length (categories (settings examplePlugin))) \<and>
    0 \<le> (1::int) \<and> 1 < int (length (categories (settings examplePlugin))) \<and> (0::int) \<noteq> 1) \<and>
   (\<exists>st1 st2. reorderCategories 0 1 examplePlugin = Some st1 \<and>
      reorderCategories 1 0 st1 = Some st2 \<and>
      categories (settings st2) = categories (settings examplePlugin))"
proof -
  have h: "0 < int (length (categories (settings examplePlugin)))"
    "1 < int (length (categories (settings examplePlugin)))"
    by (simp_all add: examplePlugin_def)
  from reorderCategories_round_trip [of 0 examplePlugin 1] h show ?thesis by simp
qed

text \<open>
  C9 fails on the code. The ids are the clock reading: two tasks added while the clock
  reads the same millisecond get the same id, and so do two categories. \<open>deleteTask\<close> with
  that id then removes both tasks.
\<close>

theorem same_tick_duplicate_ids:
  "taskIds (addTask 2000 ''1000'' ''y'' None (addTask 2000 ''1000'' ''x'' None
      (addCategory 1000 1000 ''Work'' ''a'' None (onload None)))) =
     [''1000-task'', ''2000'', ''2000''] \<and>
   categoryIds (addCategory 1000 1000 ''Home'' ''b'' None
      (addCategory 1000 1000 ''Work'' ''a'' None (onload None))) = [''1000'', ''1000''] \<and>
   taskIds (deleteTask ''1000'' ''2000'' (addTask 2000 ''1000'' ''y'' None
      (addTask 2000 ''1000'' ''x'' None
         (addCategory 1000 1000 ''Work'' ''a'' None (onload None))))) = [''1000-task'']"
  by (simp add: taskIds_def categoryIds_def findCategory_def addTask_def deleteTask_def updateCategory_def
      addCategory_def onload_def DEFAULT_SETTINGS_def toString.simps digitChar_def Let_def)

text \<open>
  C10. For a category present in the document, \<open>sortCategoryTasks\<close> leaves the categories
  before and after it as they are and in place; the category itself changes in its task
  sequence and its \<open>lastSortOrder\<close> only, and the new task sequence is a permutation of the
  old one, so every task is kept with all its fields. The settings \<open>confirmTaskDeletion\<close>
  and \<open>dateFormat\<close> are unchanged.
\<close>

theorem sortCategoryTasks_frame:
  assumes "findCategory cid st = Some c"
  shows "\<exists>pre post ts ord.
     categories (settings st) = pre @ c # post \<and>
     categories (settings (sortCategoryTasks today cid st)) =
       pre @ c\<lparr>tasks := ts, lastSortOrder := ord\<rparr> # post \<and>
     mset ts = mset (tasks c) \<and>
     confirmTaskDeletion (settings (sortCategoryTasks today cid st)) =
       confirmTaskDeletion (settings st) \<and>
     dateFormat (settings (sortCategoryTasks today cid st)) = dateFormat (settings st)"
proof -
  let ?ord = "flip (priorOrder c)"
  let ?ts = "array_sort (compareTasks ?ord today) (tasks c)"
  let ?f = "\<lambda>c :: Category. c\<lparr>tasks := ?ts, lastSortOrder := Some ?ord\<rparr>"
  from assms have "find (\<lambda>c. cat_id c = cid) (categories (settings st)) = Some c"
    by (simp add: findCategory_def)
  from update_first_split [OF this, of ?f] obtain pre post where
    pp: "categories (settings st) = pre @ c # post"
      "update_first (\<lambda>c. cat_id c = cid) ?f (categories (settings st)) = pre @ ?f c # post"
    by blast
  from assms have st': "settings (sortCategoryTasks today cid st) =
      (settings st)\<lparr>categories := update_first (\<lambda>c. cat_id c = cid) ?f (categories (settings st))\<rparr>"
    by (simp add: sortCategoryTasks_def newOrder_flip Let_def updateCategory_def Notice_def)
  have "categories (settings (sortCategoryTasks today cid st)) = pre @ ?f c # post"
    by (simp add: st' pp(2))
  moreover have "mset ?ts = mset (tasks c)"
    by (rule mset_array_sort)
  moreover have "confirmTaskDeletion (settings (sortCategoryTasks today cid st)) =
       confirmTaskDeletion (settings st)"
    "dateFormat (settings (sortCategoryTasks today cid st)) = dateFormat (settings st)"
    by (simp_all add: st')
  ultimately show ?thesis using pp(1) by blast
qed

theorem sortCategoryTasks_frame_witness:
  "findCategory ''1'' examplePlugin = Some exampleWork \<and>
   (\<exists>pre post ts ord.
     categories (settings examplePlugin) = pre @ exampleWork # post \<and>
     categories (settings (sortCategoryTasks ''2024-01-02'' ''1'' examplePlugin)) =
       pre @ exampleWork\<lparr>tasks := ts, lastSortOrder := ord\<rparr> # post \<and>
     mset ts = mset (tasks exampleWork) \<and>
     confirmTaskDeletion (settings (sortCategoryTasks ''2024-01-02'' ''1'' examplePlugin)) =
       confirmTaskDeletion (settings examplePlugin) \<and>
     dateFormat (settings (sortCategoryTasks ''2024-01-02'' ''1'' examplePlugin)) =
       dateFormat (settings examplePlugin))"
proof -
  have h: "findCategory ''1'' examplePlugin = Some exampleWork"
    by (simp add: findCategory_def examplePlugin_def exampleWork_def exampleHome_def)
  show ?thesis
    using h sortCategoryTasks_frame [OF h, of "''2024-01-02''"] by simp
qed

end
